theory Spec2Isabelle
  imports Main "HOL-Library.Sublist" "HOL-Library.Multiset" "HOL-Library.AList"
begin

section \<open>Strings and paths\<close>

text \<open>
  The packager is \<^verbatim>\<open>skill-creator/scripts/package_skill.py\<close>. Its strings are Python
  \<^verbatim>\<open>str\<close> values; here a string is a \<^typ>\<open>string\<close>, a list of characters, each
  standing for one code point below 256. \<^verbatim>\<open>s.startswith(p)\<close> is \<^term>\<open>prefix p s\<close>,
  \<^verbatim>\<open>s.endswith(p)\<close> is \<^term>\<open>suffix p s\<close> and \<^verbatim>\<open>c in s\<close> is \<^term>\<open>c \<in> set s\<close>.

  A \<^verbatim>\<open>pathlib.Path\<close> is an absolute POSIX path, kept as the list of its components
  below the root: \<^verbatim>\<open>/a/b\<close> is \<open>[''a'', ''b'']\<close> and \<^verbatim>\<open>/\<close> is \<open>[]\<close>. The paths the
  packager works with are absolute: \<^verbatim>\<open>package_skill\<close> resolves its argument first and
  every file path is produced from the resolved one by \<^verbatim>\<open>rglob\<close>.
\<close>

type_synonym path = "string list"

datatype error = ValueError | OSError | UnicodeDecodeError

text \<open>\<^verbatim>\<open>sep.join(parts)\<close> for the separator \<^verbatim>\<open>/\<close>.\<close>

fun join_slash :: "string list \<Rightarrow> string" where
  "join_slash [] = []"
| "join_slash [x] = x"
| "join_slash (x # y # ys) = x @ CHR ''/'' # join_slash (y # ys)"

text \<open>
  \<^verbatim>\<open>s.split("/")\<close>: the pieces between the separators, so a string without a separator
  (the empty one too) gives one piece. The accumulator holds the current piece, reversed.
\<close>

fun split_acc :: "string \<Rightarrow> string \<Rightarrow> string list" where
  "split_acc cur [] = [rev cur]"
| "split_acc cur (c # cs) =
     (if c = CHR ''/'' then rev cur # split_acc [] cs else split_acc (c # cur) cs)"

definition split_slash :: "string \<Rightarrow> string list" where
  "split_slash s = split_acc [] s"

text \<open>\<^verbatim>\<open>str(p)\<close> of a relative path: the components joined, and \<^verbatim>\<open>.\<close> for none.\<close>

definition path_str :: "path \<Rightarrow> string" where
  "path_str parts = (if parts = [] then ''.'' else join_slash parts)"

text \<open>\<^verbatim>\<open>p.name\<close>: the last component, empty for the root.\<close>

definition name :: "path \<Rightarrow> string" where
  "name p = (if p = [] then [] else last p)"

text \<open>\<^verbatim>\<open>p.parent\<close>: the path without its last component; the root is its own parent.\<close>

definition parent :: "path \<Rightarrow> path" where
  "parent p = butlast p"

text \<open>
  \<^verbatim>\<open>p.relative_to(other)\<close>: the components of \<open>p\<close> below \<open>other\<close>; it raises
  \<^verbatim>\<open>ValueError\<close> when \<open>other\<close> is not a prefix of \<open>p\<close>.
\<close>

definition relative_to :: "path \<Rightarrow> path \<Rightarrow> error + path" where
  "relative_to p other =
     (if prefix other p then Inr (drop (length other) p) else Inl ValueError)"


section \<open>Glob matching\<close>

text \<open>
  \<^verbatim>\<open>fnmatch.fnmatch(name, pat)\<close> is the standard library's. On POSIX it does not fold
  case; it translates the pattern into a regular expression that must match the whole
  name: \<^verbatim>\<open>*\<close> matches any run of characters (separators too), \<^verbatim>\<open>?\<close> one character,
  \<^verbatim>\<open>[seq]\<close> one character of the set and \<^verbatim>\<open>[!seq]\<close> one character outside it; a
  \<^verbatim>\<open>[\<close> that is never closed stands for itself. \<open>translate\<close> produces the pieces of
  that expression, \<open>matches\<close> decides the match. The bracket sets follow
  \<^verbatim>\<open>fnmatch.translate\<close> of Python 3.11 and later, which removes empty ranges.
\<close>

datatype token = Star | AnyChar | Lit char | CharSet "string list"

text \<open>
  The text after an opening bracket: an optional \<^verbatim>\<open>!\<close>, then an optional \<^verbatim>\<open>]\<close>,
  then everything up to the next \<^verbatim>\<open>]\<close>. \<open>bracket\<close> returns that text (the
  \<^verbatim>\<open>stuff\<close> of the library, the \<^verbatim>\<open>!\<close> included) and the rest of the pattern;
  \<open>None\<close> when no \<^verbatim>\<open>]\<close> closes it.
\<close>

definition close_bracket :: "string \<Rightarrow> (string \<times> string) option" where
  "close_bracket s =
     (if CHR '']'' \<in> set s
      then Some (takeWhile (\<lambda>c. c \<noteq> CHR '']'') s, tl (dropWhile (\<lambda>c. c \<noteq> CHR '']'') s))
      else None)"

definition bracket :: "string \<Rightarrow> (string \<times> string) option" where
  "bracket s =
     (let bang = (if prefix ''!'' s then ''!'' else []);
          s1 = drop (length bang) s;
          lead = bang @ (if prefix '']'' s1 then '']'' else []);
          s2 = drop (length lead) s
      in case close_bracket s2 of
           None \<Rightarrow> None
         | Some (stuff, rest) \<Rightarrow> Some (lead @ stuff, rest))"

text \<open>
  The library cuts the text at its range hyphens into chunks: the range runs from the
  last character of one chunk to the first of the next. A hyphen is a range hyphen when
  it is not among the first \<open>n\<close> characters of its chunk: \<open>n\<close> is 1 at the start (2
  after a leading \<^verbatim>\<open>!\<close>) and 2 after a range hyphen. A range hyphen in last position
  is a plain character of the last chunk.
\<close>

fun split_chunks :: "nat \<Rightarrow> string \<Rightarrow> string \<Rightarrow> string list" where
  "split_chunks n cur [] = [rev cur]"
| "split_chunks n cur (c # cs) =
     (if n = 0 \<and> c = CHR ''-''
      then (if cs = [] then [rev (c # cur)] else rev cur # split_chunks 2 [] cs)
      else split_chunks (n - 1) (c # cur) cs)"

text \<open>
  Empty ranges are removed from right to left: when the last character of a chunk is
  above the first of the next, both characters are dropped and the two chunks become one.
  No chunk is empty when it is compared; the tests for that keep the function total.
\<close>

fun remove_empty :: "string list \<Rightarrow> string list" where
  "remove_empty [] = []"
| "remove_empty [x] = [x]"
| "remove_empty (x # y # ys) =
     (case remove_empty (y # ys) of
        [] \<Rightarrow> [x]
      | y' # ys' \<Rightarrow>
          if x \<noteq> [] \<and> y' \<noteq> [] \<and> (of_char (last x) :: nat) > of_char (hd y')
          then (butlast x @ tl y') # ys'
          else x # y' # ys')"

definition chunks_of :: "string \<Rightarrow> string list" where
  "chunks_of stuff = remove_empty (split_chunks (if prefix ''!'' stuff then 2 else 1) [] stuff)"

text \<open>
  The characters of the set the chunks stand for: every character of a chunk, and the
  range between two chunks. The first chunk is empty only when a \<^verbatim>\<open>!\<close> was taken
  from it; the hyphen that follows it is then a plain character.
\<close>

fun in_chunks :: "string list \<Rightarrow> char \<Rightarrow> bool" where
  "in_chunks [] c = False"
| "in_chunks [x] c = (c \<in> set x)"
| "in_chunks (x # y # ys) c =
     (if x = [] then c = CHR ''-'' \<or> in_chunks (y # ys) c
      else c \<in> set x \<or>
           (y \<noteq> [] \<and> (of_char (last x) :: nat) \<le> of_char c \<and>
              (of_char c :: nat) \<le> of_char (hd y)) \<or>
           in_chunks (y # ys) c)"

text \<open>
  The set is negated when what is left after the removal starts with \<^verbatim>\<open>!\<close>, also
  when that \<^verbatim>\<open>!\<close> stood behind an empty range in the pattern. Nothing left matches
  no character, a lone \<^verbatim>\<open>!\<close> matches every character.
\<close>

definition in_class :: "string list \<Rightarrow> char \<Rightarrow> bool" where
  "in_class chunks c =
     (case chunks of
        [] \<Rightarrow> False
      | x # xs \<Rightarrow>
          if prefix ''!'' x then \<not> in_chunks (tl x # xs) c else in_chunks (x # xs) c)"

lemma close_bracket_shorter:
  "close_bracket s = Some (stuff, rest) \<Longrightarrow> length rest < length s"
proof -
  assume h: "close_bracket s = Some (stuff, rest)"
  then have r: "rest = tl (dropWhile (\<lambda>c. c \<noteq> CHR '']'') s)" and m: "CHR '']'' \<in> set s"
    by (auto simp: close_bracket_def split: if_splits)
  from m have ne: "dropWhile (\<lambda>c. c \<noteq> CHR '']'') s \<noteq> []"
    by simp
  have "length (dropWhile (\<lambda>c. c \<noteq> CHR '']'') s) \<le> length s"
    by (rule length_dropWhile_le)
  with ne r show ?thesis
    by (cases "dropWhile (\<lambda>c. c \<noteq> CHR '']'') s") auto
qed

lemma bracket_shorter:
  "bracket s = Some (stuff, rest) \<Longrightarrow> length rest < length s"
  unfolding bracket_def Let_def
  by (auto split: option.splits dest!: close_bracket_shorter)

function translate :: "string \<Rightarrow> token list" where
  "translate [] = []"
| "translate (c # pat) =
     (if c = CHR ''*'' then Star # translate pat
      else if c = CHR ''?'' then AnyChar # translate pat
      else if c = CHR ''[''
      then (case bracket pat of
              None \<Rightarrow> Lit CHR ''['' # translate pat
            | Some (stuff, rest) \<Rightarrow> CharSet (chunks_of stuff) # translate rest)
      else Lit c # translate pat)"
  by pat_completeness auto
termination
  by (relation "measure length") (auto dest: bracket_shorter)

fun matches :: "token list \<Rightarrow> string \<Rightarrow> bool" where
  "matches [] s = (s = [])"
| "matches (Star # ts) [] = matches ts []"
| "matches (Star # ts) (c # cs) = (matches ts (c # cs) \<or> matches (Star # ts) cs)"
| "matches (AnyChar # ts) [] = False"
| "matches (AnyChar # ts) (c # cs) = matches ts cs"
| "matches (Lit x # ts) [] = False"
| "matches (Lit x # ts) (c # cs) = (c = x \<and> matches ts cs)"
| "matches (CharSet chunks # ts) [] = False"
| "matches (CharSet chunks # ts) (c # cs) = (in_class chunks c \<and> matches ts cs)"

definition fnmatch :: "string \<Rightarrow> string \<Rightarrow> bool" where
  "fnmatch nm pat = matches (translate pat) nm"


section \<open>The exclusion test\<close>

text \<open>
  \<^verbatim>\<open>should_exclude(file_path, skill_path, exclude_patterns)\<close>. The inner loop slides a
  window of as many segments as the pattern has over the segments of the relative path;
  \<open>py_range n\<close> is \<^verbatim>\<open>range(n)\<close>, empty for \<open>n \<le> 0\<close>, and the slice
  \<^verbatim>\<open>rel_parts[i : i + k]\<close> is \<^term>\<open>take k (drop i rel_parts)\<close>.
\<close>

definition py_range :: "int \<Rightarrow> nat list" where
  "py_range n = [0 ..< nat n]"

fun window_loop :: "string \<Rightarrow> string list \<Rightarrow> string list \<Rightarrow> nat list \<Rightarrow> bool" where
  "window_loop pattern pattern_parts rel_parts [] = False"
| "window_loop pattern pattern_parts rel_parts (i # is) =
     (let test_path = join_slash (take (length pattern_parts) (drop i rel_parts))
      in if fnmatch test_path pattern then True
         else window_loop pattern pattern_parts rel_parts is)"

text \<open>One pass of the loop body: does this pattern make the function return \<open>True\<close>?\<close>

definition pattern_hit :: "string \<Rightarrow> string \<Rightarrow> string \<Rightarrow> bool" where
  "pattern_hit rel_path_str file_name pattern =
     (if suffix ''/'' pattern \<and>
         (prefix pattern rel_path_str \<or> prefix pattern (rel_path_str @ ''/''))
      then True
      else if fnmatch rel_path_str pattern \<or> fnmatch file_name pattern
      then True
      else if CHR ''/'' \<in> set pattern
      then (let pattern_parts = split_slash pattern;
                rel_parts = split_slash rel_path_str
            in window_loop pattern pattern_parts rel_parts
                 (py_range (int (length rel_parts) - int (length pattern_parts) + 1)))
      else False)"

fun pattern_loop :: "string \<Rightarrow> string \<Rightarrow> string list \<Rightarrow> bool" where
  "pattern_loop rel_path_str file_name [] = False"
| "pattern_loop rel_path_str file_name (pattern # rest) =
     (if pattern_hit rel_path_str file_name pattern then True
      else pattern_loop rel_path_str file_name rest)"

definition should_exclude :: "path \<Rightarrow> path \<Rightarrow> string list \<Rightarrow> bool" where
  "should_exclude file_path skill_path exclude_patterns =
     (if exclude_patterns = [] then False
      else (case relative_to file_path skill_path of
              Inl e \<Rightarrow> False
            | Inr rel_path \<Rightarrow> pattern_loop (path_str rel_path) (name file_path) exclude_patterns))"


section \<open>The file system\<close>

text \<open>
  What \<^verbatim>\<open>pathlib\<close> and \<^verbatim>\<open>zipfile\<close> see and change is the platform's, not the
  packager's; it is modelled as a tree. A regular file carries its content:
  a text, bytes that do not decode as text (\<open>Binary\<close>), or nothing the process may read
  (\<open>Denied\<close>); a directory lists its entries by name, in the order a scan
  returns them; a symbolic link carries the node it resolves to, \<open>None\<close> when it
  dangles; \<open>Special\<close> is a device, pipe or socket. Permissions other than an unreadable
  file are not modelled.
\<close>

datatype content = Text string | Binary | Denied

datatype node =
    Regular content
  | Directory "(string \<times> node) list"
  | Symlink "node option"
  | Special

text \<open>Following symbolic links, as \<^verbatim>\<open>stat\<close> does.\<close>

fun resolve_node :: "node \<Rightarrow> node option" where
  "resolve_node (Symlink None) = None"
| "resolve_node (Symlink (Some t)) = resolve_node t"
| "resolve_node n = Some n"

text \<open>
  The node a path names, from the root: links on the way are followed, the last component
  is not (\<^verbatim>\<open>lstat\<close>); \<open>stat\<close> follows it too.
\<close>

fun lookup :: "path \<Rightarrow> node \<Rightarrow> node option" where
  "lookup [] n = Some n"
| "lookup (c # cs) n =
     (case resolve_node n of
        Some (Directory es) \<Rightarrow> (case map_of es c of Some m \<Rightarrow> lookup cs m | None \<Rightarrow> None)
      | _ \<Rightarrow> None)"

definition stat :: "node \<Rightarrow> path \<Rightarrow> node option" where
  "stat fs p = (case lookup p fs of Some n \<Rightarrow> resolve_node n | None \<Rightarrow> None)"

text \<open>
  \<^verbatim>\<open>Path.exists\<close>, \<^verbatim>\<open>Path.is_dir\<close> and \<^verbatim>\<open>Path.is_file\<close> follow symbolic links: a
  link to a regular file is a file for \<^verbatim>\<open>is_file\<close>, a dangling link does not exist.
  \<open>is_regular\<close> is the test that does not follow the link: the entry itself is a
  regular file.
\<close>

definition exists :: "node \<Rightarrow> path \<Rightarrow> bool" where
  "exists fs p = (stat fs p \<noteq> None)"

definition is_dir :: "node \<Rightarrow> path \<Rightarrow> bool" where
  "is_dir fs p = (case stat fs p of Some (Directory es) \<Rightarrow> True | _ \<Rightarrow> False)"

definition is_file :: "node \<Rightarrow> path \<Rightarrow> bool" where
  "is_file fs p = (case stat fs p of Some (Regular content) \<Rightarrow> True | _ \<Rightarrow> False)"

definition is_regular :: "node \<Rightarrow> path \<Rightarrow> bool" where
  "is_regular fs p = (case lookup p fs of Some (Regular content) \<Rightarrow> True | _ \<Rightarrow> False)"

text \<open>
  \<^verbatim>\<open>Path.read_text\<close>: the text of a regular file that can be read and decoded, an
  error otherwise. \<open>read_bytes\<close> is the read that does not decode, as
  \<^verbatim>\<open>zipfile\<close> does it; the bytes themselves are not modelled.
\<close>

definition read_text :: "node \<Rightarrow> path \<Rightarrow> error + string" where
  "read_text fs p =
     (case stat fs p of
        Some (Regular (Text s)) \<Rightarrow> Inr s
      | Some (Regular Binary) \<Rightarrow> Inl UnicodeDecodeError
      | _ \<Rightarrow> Inl OSError)"

definition read_bytes :: "node \<Rightarrow> path \<Rightarrow> error + unit" where
  "read_bytes fs p =
     (case stat fs p of
        Some (Regular (Text s)) \<Rightarrow> Inr ()
      | Some (Regular Binary) \<Rightarrow> Inr ()
      | _ \<Rightarrow> Inl OSError)"

text \<open>
  \<^verbatim>\<open>skill_path.rglob("*")\<close>: every entry below the directory, hidden ones too, each as
  the directory's path extended by the entry's relative path. Directories are descended
  into, links to directories are listed and not followed. The order here is parent before
  children, entries in scan order; the packager relies on no particular order.
\<close>

fun walk :: "path \<Rightarrow> node \<Rightarrow> path list" where
  "walk p (Directory es) = concat (map (\<lambda>(c, m). (p @ [c]) # walk (p @ [c]) m) es)"
| "walk p n = []"

definition rglob :: "node \<Rightarrow> path \<Rightarrow> path list" where
  "rglob fs p = (case stat fs p of Some n \<Rightarrow> walk p n | None \<Rightarrow> [])"

text \<open>
  \<^verbatim>\<open>output_path.mkdir(parents=True, exist_ok=True)\<close> on a resolved path (no component
  is a link): the missing directories are created; it raises when something that is not a
  directory is in the way. \<open>None\<close> is the raise.
\<close>

fun mkdir_parents :: "path \<Rightarrow> node \<Rightarrow> node option" where
  "mkdir_parents [] n = (case n of Directory es \<Rightarrow> Some n | _ \<Rightarrow> None)"
| "mkdir_parents (c # cs) n =
     (case n of
        Directory es \<Rightarrow>
          (case mkdir_parents cs (case map_of es c of Some m \<Rightarrow> m | None \<Rightarrow> Directory []) of
             Some m' \<Rightarrow> Some (Directory (AList.update c m' es))
           | None \<Rightarrow> None)
      | _ \<Rightarrow> None)"

text \<open>
  Opening the archive, \<^verbatim>\<open>zipfile.ZipFile(skill_filename, "w", ...)\<close>, opens the file
  for writing. \<open>open_write\<close> is what that does to the node under the name: a regular
  file is truncated, a symbolic link is followed, a dangling one has its target created,
  a directory refuses; a special file is taken to refuse too. \<open>create_file\<close> does it at
  a path: a name that is not there is created in its directory, which must exist. \<open>None\<close>
  is the raise. The bytes later written to the archive are not part of the tree.
\<close>

fun open_write :: "node \<Rightarrow> node option" where
  "open_write (Regular content) = Some (Regular (Text []))"
| "open_write (Directory es) = None"
| "open_write (Symlink None) = Some (Symlink (Some (Regular (Text []))))"
| "open_write (Symlink (Some t)) =
     (case open_write t of Some t' \<Rightarrow> Some (Symlink (Some t')) | None \<Rightarrow> None)"
| "open_write Special = None"

fun create_file :: "path \<Rightarrow> node \<Rightarrow> node option" where
  "create_file [] n = open_write n"
| "create_file (c # cs) n =
     (case n of
        Directory es \<Rightarrow>
          (case map_of es c of
             Some m \<Rightarrow>
               (case create_file cs m of
                  Some m' \<Rightarrow> Some (Directory (AList.update c m' es))
                | None \<Rightarrow> None)
           | None \<Rightarrow>
               (if cs = [] then Some (Directory (AList.update c (Regular (Text [])) es))
                else None))
      | _ \<Rightarrow> None)"


section \<open>The rules file\<close>

text \<open>
  \<^verbatim>\<open>str.splitlines\<close> and \<^verbatim>\<open>str.strip\<close>, for code points below 256: the line
  boundaries are LF, VT, FF, CR, CR LF, FS, GS, RS and NEL; white space is TAB to CR, FS to
  US, the space, NEL and the no-break space. A text that ends in a line boundary has no
  empty last line.
\<close>

definition line_break :: "char \<Rightarrow> bool" where
  "line_break c \<longleftrightarrow> (of_char c :: nat) \<in> {0x0A, 0x0B, 0x0C, 0x0D, 0x1C, 0x1D, 0x1E, 0x85}"

definition whitespace :: "char \<Rightarrow> bool" where
  "whitespace c \<longleftrightarrow>
     (of_char c :: nat) \<in> {0x09, 0x0A, 0x0B, 0x0C, 0x0D, 0x1C, 0x1D, 0x1E, 0x1F, 0x20, 0x85, 0xA0}"

fun splitlines_acc :: "string \<Rightarrow> string \<Rightarrow> string list" where
  "splitlines_acc cur [] = (if cur = [] then [] else [rev cur])"
| "splitlines_acc cur [c] = (if line_break c then [rev cur] else [rev (c # cur)])"
| "splitlines_acc cur (c # d # cs) =
     (if of_char c = (0x0D :: nat) \<and> of_char d = (0x0A :: nat)
      then rev cur # splitlines_acc [] cs
      else if line_break c then rev cur # splitlines_acc [] (d # cs)
      else splitlines_acc (c # cur) (d # cs))"

definition splitlines :: "string \<Rightarrow> string list" where
  "splitlines s = splitlines_acc [] s"

definition strip :: "string \<Rightarrow> string" where
  "strip s = rev (dropWhile whitespace (rev (dropWhile whitespace s)))"

text \<open>
  \<^verbatim>\<open>read_skillignore(skill_path)\<close>. The loop appends to \<^verbatim>\<open>patterns\<close>; every
  exception of the \<^verbatim>\<open>try\<close> block gives the empty list.
\<close>

fun skillignore_loop :: "string list \<Rightarrow> string list \<Rightarrow> string list" where
  "skillignore_loop patterns [] = patterns"
| "skillignore_loop patterns (line # rest) =
     (let line = strip line
      in if line \<noteq> [] \<and> \<not> prefix ''#'' line
         then skillignore_loop (patterns @ [line]) rest
         else skillignore_loop patterns rest)"

definition read_skillignore :: "node \<Rightarrow> path \<Rightarrow> string list" where
  "read_skillignore fs skill_path =
     (let skillignore_path = skill_path @ [''.skillignore'']
      in if \<not> exists fs skillignore_path then []
         else (case read_text fs skillignore_path of
                 Inl e \<Rightarrow> []
               | Inr content \<Rightarrow> skillignore_loop [] (splitlines content)))"


section \<open>Packaging\<close>

text \<open>
  \<^verbatim>\<open>package_skill(skill_path, output_dir)\<close>. Its arguments here are the resolved
  paths: \<open>skill_path\<close> is \<^verbatim>\<open>Path(skill_path).resolve()\<close>, \<open>output_dir\<close> is
  \<^verbatim>\<open>Path(output_dir).resolve()\<close>, or \<open>None\<close> when the argument is \<^verbatim>\<open>None\<close> or empty,
  and \<open>cwd\<close> is \<^verbatim>\<open>Path.cwd()\<close>. \<^verbatim>\<open>validate_skill\<close> is imported from
  \<^verbatim>\<open>quick_validate\<close>, which is not part of the packager: it is a parameter, a function
  of the file system and the path that returns the pair \<^verbatim>\<open>(valid, message)\<close>.

  The function returns the archive's path or \<^verbatim>\<open>None\<close>; \<^verbatim>\<open>mkdir\<close> stands outside
  the \<^verbatim>\<open>try\<close> block, so its exception leaves the function. A \<open>run\<close> records the
  outcome, the file system afterwards, the path at which the archive was opened for
  writing (\<open>None\<close> when it never was), the archive's entries as pairs of the name in the
  archive and the file written under it, and the two counters. The messages printed are
  left out. When the walk raises, the locals are lost: the run then reports no entries.
\<close>

datatype outcome = Returned "path option" | Raised error

record run =
  outcome :: outcome
  fs_after :: node
  sink :: "path option"
  entries :: "(path \<times> path) list"
  files_added :: nat
  files_excluded :: nat

text \<open>The local state of the walk: the entries written and the two counters.\<close>

record counters =
  written :: "(path \<times> path) list"
  added :: nat
  excluded :: nat

text \<open>
  \<^verbatim>\<open>zipf.write(file_path, arcname)\<close> reads the file's bytes, so it raises on one
  that cannot be read.
\<close>

definition zip_write :: "node \<Rightarrow> path \<Rightarrow> path \<Rightarrow> counters \<Rightarrow> error + counters" where
  "zip_write fs file_path arcname st =
     (case read_bytes fs file_path of
        Inl e \<Rightarrow> Inl e
      | Inr bytes \<Rightarrow> Inr (st\<lparr>written := written st @ [(arcname, file_path)]\<rparr>))"

fun walk_loop :: "node \<Rightarrow> path \<Rightarrow> string list \<Rightarrow> path list \<Rightarrow> counters \<Rightarrow> error + counters" where
  "walk_loop fs skill_path exclude_patterns [] st = Inr st"
| "walk_loop fs skill_path exclude_patterns (file_path # rest) st =
     (if is_file fs file_path
      then if should_exclude file_path skill_path exclude_patterns
           then walk_loop fs skill_path exclude_patterns rest (st\<lparr>excluded := excluded st + 1\<rparr>)
           else (case relative_to file_path (parent skill_path) of
                   Inl e \<Rightarrow> Inl e
                 | Inr arcname \<Rightarrow>
                     (case zip_write fs file_path arcname st of
                        Inl e \<Rightarrow> Inl e
                      | Inr st' \<Rightarrow>
                          walk_loop fs skill_path exclude_patterns rest
                            (st'\<lparr>added := added st' + 1\<rparr>)))
      else walk_loop fs skill_path exclude_patterns rest st)"

definition failed :: "node \<Rightarrow> path option \<Rightarrow> outcome \<Rightarrow> run" where
  "failed fs opened out =
     \<lparr>outcome = out, fs_after = fs, sink = opened, entries = [],
      files_added = 0, files_excluded = 0\<rparr>"

definition output_location :: "node \<Rightarrow> path \<Rightarrow> path option \<Rightarrow> (path \<times> node) option" where
  "output_location fs cwd output_dir =
     (case output_dir of
        Some output_path \<Rightarrow>
          (case mkdir_parents output_path fs of
             Some fs' \<Rightarrow> Some (output_path, fs')
           | None \<Rightarrow> None)
      | None \<Rightarrow> Some (cwd, fs))"

definition package_skill ::
  "(node \<Rightarrow> path \<Rightarrow> bool \<times> string) \<Rightarrow> node \<Rightarrow> path \<Rightarrow> path \<Rightarrow> path option \<Rightarrow> run" where
  "package_skill validate_skill fs cwd skill_path output_dir =
     (if \<not> exists fs skill_path then failed fs None (Returned None)
      else if \<not> is_dir fs skill_path then failed fs None (Returned None)
      else if \<not> exists fs (skill_path @ [''SKILL.md'']) then failed fs None (Returned None)
      else if \<not> fst (validate_skill fs skill_path) then failed fs None (Returned None)
      else
        (case output_location fs cwd output_dir of
           None \<Rightarrow> failed fs None (Raised OSError)
         | Some (output_path, fs1) \<Rightarrow>
             (let skill_name = name skill_path;
                  skill_filename = output_path @ [skill_name @ ''.skill''];
                  exclude_patterns = read_skillignore fs1 skill_path
              in case create_file skill_filename fs1 of
                   None \<Rightarrow> failed fs1 None (Returned None)
                 | Some fs2 \<Rightarrow>
                     (case walk_loop fs2 skill_path exclude_patterns (rglob fs2 skill_path)
                             \<lparr>written = [], added = 0, excluded = 0\<rparr> of
                        Inl e \<Rightarrow> failed fs2 (Some skill_filename) (Returned None)
                      | Inr st \<Rightarrow>
                          \<lparr>outcome = Returned (Some skill_filename), fs_after = fs2,
                           sink = Some skill_filename, entries = written st,
                           files_added = added st, files_excluded = excluded st\<rparr>))))"


section \<open>The specification's rules, and example trees\<close>

text \<open>
  The patterns of a rules file in the specification's words: each line, trimmed of
  surrounding white space, that is then neither empty nor starts with \<^verbatim>\<open>#\<close>, in
  file order.
\<close>

definition spec_patterns :: "string \<Rightarrow> string list" where
  "spec_patterns content =
     filter (\<lambda>line. line \<noteq> [] \<and> \<not> prefix ''#'' line) (map strip (splitlines content))"

text \<open>
  Two file systems for the examples. The first holds the skill \<^verbatim>\<open>/home/my-skill\<close>
  with a rules file, a second directory whose rules file cannot be read, a plain file and
  an empty output directory. The second holds a skill with a symbolic link to its
  descriptor file.
\<close>

definition skill_tree :: node where
  "skill_tree =
     Directory
       [(''home'', Directory
          [(''my-skill'', Directory
             [(''SKILL.md'', Regular (Text ''---'')),
              (''.skillignore'', Regular (Text ''# rules\<newline>\<newline>  build/ \<newline>*.pyc\<newline>'')),
              (''notes.md'', Regular (Text ''n'')),
              (''build'', Directory [(''out.bin'', Regular (Text ''b''))])]),
           (''locked'', Directory
             [(''SKILL.md'', Regular (Text ''---'')),
              (''.skillignore'', Regular Denied)]),
           (''plain.txt'', Regular (Text ''p''))]),
        (''out'', Directory [])]"

definition link_tree :: node where
  "link_tree =
     Directory
       [(''s'', Directory
          [(''SKILL.md'', Regular (Text ''---'')),
           (''alias.md'', Symlink (Some (Regular (Text ''---''))))]),
        (''out'', Directory [])]"

text \<open>Two validators: one accepts every skill, one rejects every skill.\<close>

definition accept :: "node \<Rightarrow> path \<Rightarrow> bool \<times> string" where
  "accept fs p = (True, ''Skill is valid!'')"

definition reject :: "node \<Rightarrow> path \<Rightarrow> bool \<times> string" where
  "reject fs p = (False, ''No YAML frontmatter found'')"

lemmas fs_eval = exists_def is_dir_def is_file_def stat_def read_text_def read_bytes_def rglob_def
  read_skillignore_def splitlines_def strip_def whitespace_def line_break_def
lemmas excl_eval = should_exclude_def relative_to_def path_str_def name_def parent_def pattern_hit_def
  fnmatch_def split_slash_def suffix_to_prefix py_range_def
lemmas pkg_eval = package_skill_def failed_def output_location_def zip_write_def


section \<open>Properties of the exclusion test\<close>

lemma window_loop_iff:
  "window_loop pattern pattern_parts rel_parts is \<longleftrightarrow>
     (\<exists>i \<in> set is.
        fnmatch (join_slash (take (length pattern_parts) (drop i rel_parts))) pattern)"
  by (induction "is") (auto simp: Let_def)

lemma pattern_loop_iff:
  "pattern_loop rel_path_str file_name patterns \<longleftrightarrow>
     (\<exists>p \<in> set patterns. pattern_hit rel_path_str file_name p)"
  by (induction patterns) auto

lemma should_exclude_iff:
  "should_exclude file_path skill_path patterns \<longleftrightarrow>
     (\<exists>rel_path. relative_to file_path skill_path = Inr rel_path \<and>
        (\<exists>p \<in> set patterns. pattern_hit (path_str rel_path) (name file_path) p))"
  by (cases patterns)
     (auto simp: should_exclude_def pattern_loop_iff split: sum.splits)

lemma set_py_range: "i \<in> set (py_range n) \<longleftrightarrow> int i < n"
  by (auto simp: py_range_def)

text \<open>
  C9. With an empty pattern list the exclusion test answers \<open>False\<close> for every file and
  every root.
\<close>

theorem should_exclude_no_patterns: "should_exclude file_path skill_path [] = False"
  by (simp add: should_exclude_def)

text \<open>
  C8. A file that cannot be made relative to the root (\<^verbatim>\<open>relative_to\<close> raises
  \<^verbatim>\<open>ValueError\<close>, which the function catches) is never excluded, whatever the
  patterns are.
\<close>

theorem should_exclude_outside_root:
  "relative_to file_path skill_path = Inl e \<Longrightarrow>
     should_exclude file_path skill_path patterns = False"
  by (simp add: should_exclude_def)

theorem should_exclude_outside_root_witness:
  "relative_to [''tmp'', ''x.txt''] [''home'', ''my-skill''] = Inl ValueError \<and>
   should_exclude [''tmp'', ''x.txt''] [''home'', ''my-skill''] [''*'', ''tmp/''] = False"
proof -
  have h: "relative_to [''tmp'', ''x.txt''] [''home'', ''my-skill''] = Inl ValueError"
    by (simp add: relative_to_def)
  from h should_exclude_outside_root [OF h] show ?thesis
    by simp
qed

text \<open>
  C3. A pattern of the list that ends in \<^verbatim>\<open>/\<close> excludes every file whose relative
  path starts with the pattern, or whose relative path followed by \<^verbatim>\<open>/\<close> starts
  with it.
\<close>

theorem directory_pattern_excludes:
  assumes "p \<in> set patterns"
    and "suffix ''/'' p"
    and "relative_to file_path skill_path = Inr rel_path"
    and "prefix p (path_str rel_path) \<or> prefix p (path_str rel_path @ ''/'')"
  shows "should_exclude file_path skill_path patterns"
proof -
  from assms(2,4) have "pattern_hit (path_str rel_path) (name file_path) p"
    by (simp add: pattern_hit_def)
  with assms(1,3) show ?thesis
    unfolding should_exclude_iff by blast
qed

theorem directory_pattern_excludes_witness:
  "should_exclude [''home'', ''my-skill'', ''build'', ''out.bin''] [''home'', ''my-skill'']
     [''*.pyc'', ''build/'']"
proof -
  have 1: "''build/'' \<in> set [''*.pyc'', ''build/'']"
    by simp
  have 2: "suffix ''/'' ''build/''"
    by (simp add: suffix_to_prefix)
  have 3: "relative_to [''home'', ''my-skill'', ''build'', ''out.bin''] [''home'', ''my-skill'']
             = Inr [''build'', ''out.bin'']"
    by (simp add: relative_to_def)
  have 4: "prefix ''build/'' (path_str [''build'', ''out.bin'']) \<or>
           prefix ''build/'' (path_str [''build'', ''out.bin''] @ ''/'')"
    by (simp add: path_str_def)
  from directory_pattern_excludes [OF 1 2 3 4] show ?thesis .
qed

text \<open>
  C7. The answer does not depend on the order of the patterns: two lists that are
  permutations of each other give the same answer for every file and root.
\<close>

theorem should_exclude_permutation:
  "mset patterns = mset patterns' \<Longrightarrow>
     should_exclude file_path skill_path patterns = should_exclude file_path skill_path patterns'"
proof -
  assume "mset patterns = mset patterns'"
  then have "set patterns = set patterns'"
    by (rule mset_eq_setD)
  then show ?thesis
    by (simp add: should_exclude_iff)
qed

theorem should_exclude_permutation_witness:
  "should_exclude [''r'', ''build'', ''out.bin''] [''r''] [''*.pyc'', ''build/'', ''notes'']
     = should_exclude [''r'', ''build'', ''out.bin''] [''r''] [''notes'', ''*.pyc'', ''build/'']"
proof -
  have "mset [''*.pyc'', ''build/'', ''notes''] = mset [''notes'', ''*.pyc'', ''build/'']"
    by simp
  from should_exclude_permutation [OF this] show ?thesis .
qed

text \<open>
  C10. The test is monotone in the pattern list: a file excluded under a list is excluded
  under every list that contains all its patterns.
\<close>

theorem should_exclude_monotone:
  "set patterns \<subseteq> set patterns' \<Longrightarrow> should_exclude file_path skill_path patterns \<Longrightarrow>
     should_exclude file_path skill_path patterns'"
  unfolding should_exclude_iff by blast

theorem should_exclude_monotone_witness:
  "should_exclude [''r'', ''a.pyc''] [''r''] [''x/'', ''*.pyc'', ''y'']"
proof -
  have 1: "set [''*.pyc''] \<subseteq> set [''x/'', ''*.pyc'', ''y'']"
    by simp
  have 2: "should_exclude [''r'', ''a.pyc''] [''r''] [''*.pyc'']"
    by (simp add: should_exclude_def relative_to_def path_str_def name_def pattern_hit_def
        fnmatch_def suffix_to_prefix)
  from should_exclude_monotone [OF 1 2] show ?thesis .
qed

text \<open>
  C1, as the code has it. The window test runs only for a pattern that contains
  \<^verbatim>\<open>/\<close>. Such a pattern of the list, of \<open>k\<close> segments, excludes every file whose
  relative path, split at \<^verbatim>\<open>/\<close>, has \<open>k\<close> consecutive segments that, joined with
  \<^verbatim>\<open>/\<close>, match the pattern. A pattern without \<^verbatim>\<open>/\<close> is never tested against
  windows: it hits exactly when it matches the whole relative path or the base name, so a
  list of such patterns excludes a file exactly when one of them matches the whole
  relative path or the base name.
\<close>

theorem window_pattern_excludes:
  "(p \<in> set patterns \<and> CHR ''/'' \<in> set p \<and>
    relative_to file_path skill_path = Inr rel_path \<and>
    i + length (split_slash p) \<le> length (split_slash (path_str rel_path)) \<and>
    fnmatch (join_slash (take (length (split_slash p))
       (drop i (split_slash (path_str rel_path))))) p
    \<longrightarrow> should_exclude file_path skill_path patterns) \<and>
   (CHR ''/'' \<notin> set q \<longrightarrow>
      pattern_hit rel_path_str file_name q
        = (fnmatch rel_path_str q \<or> fnmatch file_name q)) \<and>
   ((\<forall>q \<in> set patterns'. CHR ''/'' \<notin> set q) \<and>
    relative_to file_path skill_path = Inr rel_path
    \<longrightarrow> should_exclude file_path skill_path patterns'
          = (\<exists>q \<in> set patterns'.
               fnmatch (path_str rel_path) q \<or> fnmatch (name file_path) q))"
proof (intro conjI impI)
  assume a: "p \<in> set patterns \<and> CHR ''/'' \<in> set p \<and>
    relative_to file_path skill_path = Inr rel_path \<and>
    i + length (split_slash p) \<le> length (split_slash (path_str rel_path)) \<and>
    fnmatch (join_slash (take (length (split_slash p))
       (drop i (split_slash (path_str rel_path))))) p"
  then have "i \<in> set (py_range (int (length (split_slash (path_str rel_path)))
              - int (length (split_slash p)) + 1))"
    unfolding set_py_range by linarith
  with a
  have "window_loop p (split_slash p) (split_slash (path_str rel_path))
          (py_range (int (length (split_slash (path_str rel_path)))
              - int (length (split_slash p)) + 1))"
    unfolding window_loop_iff by blast
  with a have "pattern_hit (path_str rel_path) (name file_path) p"
    by (simp add: pattern_hit_def Let_def)
  with a show "should_exclude file_path skill_path patterns"
    unfolding should_exclude_iff by blast
next
  assume "CHR ''/'' \<notin> set q"
  then show "pattern_hit rel_path_str file_name q
        = (fnmatch rel_path_str q \<or> fnmatch file_name q)"
    by (auto simp: pattern_hit_def suffix_def)
next
  assume b: "(\<forall>q \<in> set patterns'. CHR ''/'' \<notin> set q) \<and>
    relative_to file_path skill_path = Inr rel_path"
  then have "\<And>q. q \<in> set patterns' \<Longrightarrow>
      pattern_hit (path_str rel_path) (name file_path) q
        = (fnmatch (path_str rel_path) q \<or> fnmatch (name file_path) q)"
    by (auto simp: pattern_hit_def suffix_def)
  with b show "should_exclude file_path skill_path patterns'
          = (\<exists>q \<in> set patterns'.
               fnmatch (path_str rel_path) q \<or> fnmatch (name file_path) q)"
    unfolding should_exclude_iff by auto
qed

theorem window_pattern_excludes_witness:
  "should_exclude [''r'', ''src'', ''build'', ''output'', ''f.txt''] [''r'']
     [''*.pyc'', ''build/output''] \<and>
   pattern_hit ''build/out.bin'' ''out.bin'' ''build''
     = (fnmatch ''build/out.bin'' ''build'' \<or> fnmatch ''out.bin'' ''build'') \<and>
   should_exclude [''r'', ''build'', ''out.pyc''] [''r''] [''build'', ''*.pyc'']
     = (\<exists>q \<in> set [''build'', ''*.pyc''].
          fnmatch (path_str [''build'', ''out.pyc'']) q \<or>
          fnmatch (name [''r'', ''build'', ''out.pyc'']) q)"
proof -
  have 1: "''build/output'' \<in> set [''*.pyc'', ''build/output'']"
    by simp
  have 2: "CHR ''/'' \<in> set ''build/output''"
    by simp
  have 3: "relative_to [''r'', ''src'', ''build'', ''output'', ''f.txt''] [''r'']
             = Inr [''src'', ''build'', ''output'', ''f.txt'']"
    by (simp add: relative_to_def)
  have 4: "1 + length (split_slash ''build/output'')
             \<le> length (split_slash (path_str [''src'', ''build'', ''output'', ''f.txt'']))"
    by (simp add: split_slash_def path_str_def)
  have 5: "fnmatch (join_slash (take (length (split_slash ''build/output''))
             (drop 1 (split_slash (path_str [''src'', ''build'', ''output'', ''f.txt'']))))) ''build/output''"
    by (simp add: split_slash_def path_str_def fnmatch_def)
  have 6: "CHR ''/'' \<notin> set ''build''"
    by simp
  have 7: "\<forall>q \<in> set [''build'', ''*.pyc'']. CHR ''/'' \<notin> set q"
    by simp
  have 8: "relative_to [''r'', ''build'', ''out.pyc''] [''r''] = Inr [''build'', ''out.pyc'']"
    by (simp add: relative_to_def)
  from 1 2 3 4 5 window_pattern_excludes
      [where p = "''build/output''" and patterns = "[''*.pyc'', ''build/output'']"
         and file_path = "[''r'', ''src'', ''build'', ''output'', ''f.txt'']"
         and skill_path = "[''r'']"
         and rel_path = "[''src'', ''build'', ''output'', ''f.txt'']" and i = 1,
       THEN conjunct1]
  have a: "should_exclude [''r'', ''src'', ''build'', ''output'', ''f.txt''] [''r'']
     [''*.pyc'', ''build/output'']"
    by blast
  from 6 window_pattern_excludes
      [where q = "''build''" and rel_path_str = "''build/out.bin''"
         and file_name = "''out.bin''", THEN conjunct2, THEN conjunct1]
  have b: "pattern_hit ''build/out.bin'' ''out.bin'' ''build''
     = (fnmatch ''build/out.bin'' ''build'' \<or> fnmatch ''out.bin'' ''build'')"
    by blast
  from 7 8 window_pattern_excludes
      [where patterns' = "[''build'', ''*.pyc'']"
         and file_path = "[''r'', ''build'', ''out.pyc'']" and skill_path = "[''r'']"
         and rel_path = "[''build'', ''out.pyc'']", THEN conjunct2, THEN conjunct2]
  have c: "should_exclude [''r'', ''build'', ''out.pyc''] [''r''] [''build'', ''*.pyc'']
     = (\<exists>q \<in> set [''build'', ''*.pyc''].
          fnmatch (path_str [''build'', ''out.pyc'']) q \<or>
          fnmatch (name [''r'', ''build'', ''out.pyc'']) q)"
    by blast
  from a b c show ?thesis
    by blast
qed

text \<open>
  C1, as the specification states it, fails for a pattern of one segment: the pattern
  \<^verbatim>\<open>build\<close> has one segment, the relative path \<^verbatim>\<open>build/out.bin\<close> has two, its
  first segment matches the pattern, and the file is not excluded.
\<close>

theorem one_segment_window_counterexample:
  "''build'' \<in> set [''build''] \<and>
   relative_to [''r'', ''build'', ''out.bin''] [''r''] = Inr [''build'', ''out.bin''] \<and>
   length (split_slash ''build'') = 1 \<and>
   0 + length (split_slash ''build'') \<le> length (split_slash (path_str [''build'', ''out.bin''])) \<and>
   fnmatch (join_slash (take (length (split_slash ''build''))
      (drop 0 (split_slash (path_str [''build'', ''out.bin''])))))  ''build'' \<and>
   \<not> should_exclude [''r'', ''build'', ''out.bin''] [''r''] [''build'']"
  by (simp add: should_exclude_def relative_to_def path_str_def name_def pattern_hit_def
      fnmatch_def split_slash_def suffix_to_prefix)


section \<open>Properties of the rules file and of packaging\<close>

lemma walk_below: "q \<in> set (walk p n) \<Longrightarrow> \<exists>rel. rel \<noteq> [] \<and> q = p @ rel"
proof (induction p n arbitrary: q rule: walk.induct)
  case (1 p es)
  then obtain c m where cm: "(c, m) \<in> set es" and q: "q = p @ [c] \<or> q \<in> set (walk (p @ [c]) m)"
    by auto
  show ?case
  proof (cases "q = p @ [c]")
    case True then show ?thesis by blast
  next
    case False
    with q have "q \<in> set (walk (p @ [c]) m)" by simp
    from "1.IH" [OF cm refl this] obtain rel where "q = (p @ [c]) @ rel" by blast
    then have "q = p @ (c # rel)" by simp
    then show ?thesis by blast
  qed
qed simp_all

lemma rglob_below: "q \<in> set (rglob fs p) \<Longrightarrow> \<exists>rel. rel \<noteq> [] \<and> q = p @ rel"
  by (auto simp: rglob_def split: option.splits dest: walk_below)

lemma walk_loop_count:
  "walk_loop fs sp pats ps st = Inr st' \<Longrightarrow>
     added st' + excluded st' = added st + excluded st + length (filter (is_file fs) ps)"
  by (induction ps arbitrary: st)
     (auto simp: zip_write_def split: if_splits sum.splits)

lemma walk_loop_written:
  "walk_loop fs sp pats ps st = Inr st' \<Longrightarrow> e \<in> set (written st') \<Longrightarrow>
     e \<in> set (written st) \<or>
     (\<exists>file_path \<in> set ps. is_file fs file_path \<and> \<not> should_exclude file_path sp pats \<and>
        relative_to file_path (parent sp) = Inr (fst e) \<and> snd e = file_path)"
  by (induction ps arbitrary: st)
     (fastforce simp: zip_write_def split: if_splits sum.splits)+

lemma skillignore_loop_filter:
  "skillignore_loop patterns lines =
     patterns @ filter (\<lambda>line. line \<noteq> [] \<and> \<not> prefix ''#'' line) (map strip lines)"
  by (induction lines arbitrary: patterns) (simp_all add: Let_def)

lemma read_text_exists: "read_text fs p = Inr content \<Longrightarrow> exists fs p"
  by (auto simp: read_text_def exists_def split: option.splits node.splits content.splits)

text \<open>
  C5. When the rules file can be read, the loader returns exactly its lines that, trimmed
  of surrounding white space, are neither empty nor start with \<^verbatim>\<open>#\<close>, each trimmed,
  in file order; it returns the empty list when the file is absent and when reading it
  fails.
\<close>

theorem read_skillignore_lines:
  "(read_text fs (skill_path @ [''.skillignore'']) = Inr content \<longrightarrow>
      read_skillignore fs skill_path = spec_patterns content) \<and>
   (\<not> exists fs (skill_path @ [''.skillignore'']) \<longrightarrow> read_skillignore fs skill_path = []) \<and>
   (read_text fs (skill_path @ [''.skillignore'']) = Inl e \<longrightarrow>
      read_skillignore fs skill_path = [])"
  by (auto simp: read_skillignore_def Let_def spec_patterns_def skillignore_loop_filter
      dest: read_text_exists)

theorem read_skillignore_lines_witness:
  "read_text skill_tree ([''home'', ''my-skill''] @ [''.skillignore''])
     = Inr ''# rules\<newline>\<newline>  build/ \<newline>*.pyc\<newline>'' \<and>
   read_skillignore skill_tree [''home'', ''my-skill''] = [''build/'', ''*.pyc''] \<and>
   \<not> exists skill_tree ([''out''] @ [''.skillignore'']) \<and>
   read_skillignore skill_tree [''out''] = [] \<and>
   read_text skill_tree ([''home'', ''locked''] @ [''.skillignore'']) = Inl OSError \<and>
   read_skillignore skill_tree [''home'', ''locked''] = []"
proof -
  have 1: "read_text skill_tree ([''home'', ''my-skill''] @ [''.skillignore''])
     = Inr ''# rules\<newline>\<newline>  build/ \<newline>*.pyc\<newline>''"
    by (simp add: skill_tree_def read_text_def stat_def)
  have 2: "\<not> exists skill_tree ([''out''] @ [''.skillignore''])"
    by (simp add: skill_tree_def exists_def stat_def)
  have 3: "read_text skill_tree ([''home'', ''locked''] @ [''.skillignore'']) = Inl OSError"
    by (simp add: skill_tree_def read_text_def stat_def)
  have 4: "spec_patterns ''# rules\<newline>\<newline>  build/ \<newline>*.pyc\<newline>'' = [''build/'', ''*.pyc'']"
    by (simp add: spec_patterns_def splitlines_def strip_def whitespace_def line_break_def)
  from read_skillignore_lines [of skill_tree "[''home'', ''my-skill'']"
      "''# rules\<newline>\<newline>  build/ \<newline>*.pyc\<newline>''" OSError] 1 4
  have a: "read_skillignore skill_tree [''home'', ''my-skill''] = [''build/'', ''*.pyc'']"
    by simp
  from read_skillignore_lines [of skill_tree "[''out'']" "[]" OSError] 2
  have b: "read_skillignore skill_tree [''out''] = []"
    by blast
  from read_skillignore_lines [of skill_tree "[''home'', ''locked'']" "[]" OSError] 3
  have c: "read_skillignore skill_tree [''home'', ''locked''] = []"
    by blast
  from 1 2 3 a b c show ?thesis
    by blast
qed

text \<open>
  C6. When the source path is missing, is not a directory, lacks the descriptor file
  \<^verbatim>\<open>SKILL.md\<close>, or the validator answers \<open>False\<close>, packaging returns the failure
  result \<^verbatim>\<open>None\<close>, the archive is never opened for writing and the file system is
  left as it was, so no archive file is created.
\<close>

theorem early_failure_no_sink:
  assumes "\<not> exists fs skill_path \<or> \<not> is_dir fs skill_path \<or>
           \<not> exists fs (skill_path @ [''SKILL.md'']) \<or> \<not> fst (validate_skill fs skill_path)"
  shows "outcome (package_skill validate_skill fs cwd skill_path output_dir) = Returned None \<and>
         sink (package_skill validate_skill fs cwd skill_path output_dir) = None \<and>
         fs_after (package_skill validate_skill fs cwd skill_path output_dir) = fs \<and>
         entries (package_skill validate_skill fs cwd skill_path output_dir) = []"
  using assms by (auto simp: package_skill_def failed_def)

theorem early_failure_no_sink_witness:
  "(let r = package_skill accept skill_tree [''home''] [''home'', ''missing''] (Some [''out''])
    in outcome r = Returned None \<and> sink r = None \<and> fs_after r = skill_tree \<and> entries r = []) \<and>
   (let r = package_skill accept skill_tree [''home''] [''home'', ''plain.txt''] (Some [''out''])
    in outcome r = Returned None \<and> sink r = None \<and> fs_after r = skill_tree \<and> entries r = []) \<and>
   (let r = package_skill accept skill_tree [''home''] [''out''] None
    in outcome r = Returned None \<and> sink r = None \<and> fs_after r = skill_tree \<and> entries r = []) \<and>
   (let r = package_skill reject skill_tree [''home''] [''home'', ''my-skill''] (Some [''out''])
    in outcome r = Returned None \<and> sink r = None \<and> fs_after r = skill_tree \<and> entries r = [])"
proof -
  have 1: "\<not> exists skill_tree [''home'', ''missing'']"
    by (simp add: skill_tree_def exists_def stat_def)
  have 2: "\<not> is_dir skill_tree [''home'', ''plain.txt'']"
    by (simp add: skill_tree_def is_dir_def stat_def)
  have 3: "\<not> exists skill_tree ([''out''] @ [''SKILL.md''])"
    by (simp add: skill_tree_def exists_def stat_def)
  have 4: "\<not> fst (reject skill_tree [''home'', ''my-skill''])"
    by (simp add: reject_def)
  from 1 have a: "\<not> exists skill_tree [''home'', ''missing''] \<or> \<not> is_dir skill_tree [''home'', ''missing''] \<or>
      \<not> exists skill_tree ([''home'', ''missing''] @ [''SKILL.md'']) \<or> \<not> fst (accept skill_tree [''home'', ''missing''])"
    by blast
  from 2 have b: "\<not> exists skill_tree [''home'', ''plain.txt''] \<or> \<not> is_dir skill_tree [''home'', ''plain.txt''] \<or>
      \<not> exists skill_tree ([''home'', ''plain.txt''] @ [''SKILL.md'']) \<or> \<not> fst (accept skill_tree [''home'', ''plain.txt''])"
    by blast
  from 3 have c: "\<not> exists skill_tree [''out''] \<or> \<not> is_dir skill_tree [''out''] \<or>
      \<not> exists skill_tree ([''out''] @ [''SKILL.md'']) \<or> \<not> fst (accept skill_tree [''out''])"
    by blast
  from 4 have d: "\<not> exists skill_tree [''home'', ''my-skill''] \<or> \<not> is_dir skill_tree [''home'', ''my-skill''] \<or>
      \<not> exists skill_tree ([''home'', ''my-skill''] @ [''SKILL.md'']) \<or> \<not> fst (reject skill_tree [''home'', ''my-skill''])"
    by blast
  note early_failure_no_sink
      [where validate_skill = accept and cwd = "[''home'']" and output_dir = "Some [''out'']", OF a]
    early_failure_no_sink
      [where validate_skill = accept and cwd = "[''home'']" and output_dir = "Some [''out'']", OF b]
    early_failure_no_sink
      [where validate_skill = accept and cwd = "[''home'']" and output_dir = None, OF c]
    early_failure_no_sink
      [where validate_skill = reject and cwd = "[''home'']" and output_dir = "Some [''out'']", OF d]
  then show ?thesis
    unfolding Let_def by blast
qed

lemma package_skill_success:
  assumes "outcome (package_skill validate_skill fs cwd skill_path output_dir) = Returned (Some archive)"
  obtains exclude_patterns st where
    "walk_loop (fs_after (package_skill validate_skill fs cwd skill_path output_dir)) skill_path
        exclude_patterns
        (rglob (fs_after (package_skill validate_skill fs cwd skill_path output_dir)) skill_path)
        \<lparr>written = [], added = 0, excluded = 0\<rparr> = Inr st"
    "entries (package_skill validate_skill fs cwd skill_path output_dir) = written st"
    "files_added (package_skill validate_skill fs cwd skill_path output_dir) = added st"
    "files_excluded (package_skill validate_skill fs cwd skill_path output_dir) = excluded st"
  using assms
  by (auto simp: package_skill_def failed_def Let_def
      split: if_splits option.splits sum.splits prod.splits)

lemma package_skill_entries:
  assumes "e \<in> set (entries (package_skill validate_skill fs cwd skill_path output_dir))"
  shows "outcome (package_skill validate_skill fs cwd skill_path output_dir)
           = Returned (Some (the (sink (package_skill validate_skill fs cwd skill_path output_dir))))"
  using assms
  by (auto simp: package_skill_def failed_def Let_def
      split: if_splits option.splits sum.splits prod.splits)

text \<open>
  C4, as the code has it. After a successful build the two counters add up to the number
  of entries below the source directory for which \<^verbatim>\<open>is_file\<close> holds, in the file
  system as the walk finds it (the archive file is created before the walk): the regular
  files and the symbolic links that resolve to regular files. Directories, special files
  and links that dangle or resolve to anything else are not counted.
\<close>

theorem counts_cover_walk:
  assumes "outcome (package_skill validate_skill fs cwd skill_path output_dir) = Returned (Some archive)"
  shows "files_added (package_skill validate_skill fs cwd skill_path output_dir)
         + files_excluded (package_skill validate_skill fs cwd skill_path output_dir)
         = length (filter (is_file (fs_after (package_skill validate_skill fs cwd skill_path output_dir)))
             (rglob (fs_after (package_skill validate_skill fs cwd skill_path output_dir)) skill_path))"
proof -
  from assms obtain pats st where
    w: "walk_loop (fs_after (package_skill validate_skill fs cwd skill_path output_dir)) skill_path
        pats
        (rglob (fs_after (package_skill validate_skill fs cwd skill_path output_dir)) skill_path)
        \<lparr>written = [], added = 0, excluded = 0\<rparr> = Inr st"
    and a: "files_added (package_skill validate_skill fs cwd skill_path output_dir) = added st"
    and x: "files_excluded (package_skill validate_skill fs cwd skill_path output_dir) = excluded st"
    by (rule package_skill_success)
  from walk_loop_count [OF w] a x show ?thesis
    by simp
qed

theorem counts_cover_walk_witness:
  "outcome (package_skill accept skill_tree [''home''] [''home'', ''my-skill''] (Some [''out'']))
     = Returned (Some [''out'', ''my-skill.skill'']) \<and>
   files_added (package_skill accept skill_tree [''home''] [''home'', ''my-skill''] (Some [''out'']))
   + files_excluded
       (package_skill accept skill_tree [''home''] [''home'', ''my-skill''] (Some [''out'']))
   = 4"
proof -
  have o: "outcome
      (package_skill accept skill_tree [''home''] [''home'', ''my-skill''] (Some [''out'']))
     = Returned (Some [''out'', ''my-skill.skill''])"
    by (simp add: skill_tree_def accept_def pkg_eval fs_eval excl_eval Let_def)
  have n: "length (filter
       (is_file (fs_after
          (package_skill accept skill_tree [''home''] [''home'', ''my-skill''] (Some [''out'']))))
       (rglob (fs_after
          (package_skill accept skill_tree [''home''] [''home'', ''my-skill''] (Some [''out''])))
          [''home'', ''my-skill''])) = 4"
    by (simp add: skill_tree_def accept_def pkg_eval fs_eval excl_eval Let_def)
  from counts_cover_walk [OF o] o n show ?thesis
    by simp
qed

text \<open>
  C4, as the specification states it, fails when the source directory holds a symbolic
  link to a regular file: the skill \<^verbatim>\<open>/s\<close> holds one regular file and one link to it,
  the build succeeds, and the counters add up to two.
\<close>

theorem symlink_counted_counterexample:
  "outcome (package_skill accept link_tree [] [''s''] (Some [''out'']))
     = Returned (Some [''out'', ''s.skill'']) \<and>
   files_added (package_skill accept link_tree [] [''s''] (Some [''out'']))
   + files_excluded (package_skill accept link_tree [] [''s''] (Some [''out''])) = 2 \<and>
   length (filter (is_regular link_tree) (rglob link_tree [''s''])) = 1 \<and>
   length (filter
     (is_regular (fs_after (package_skill accept link_tree [] [''s''] (Some [''out'']))))
     (rglob (fs_after (package_skill accept link_tree [] [''s''] (Some [''out'']))) [''s'']))
   = 1"
  by (simp add: link_tree_def accept_def is_regular_def pkg_eval fs_eval excl_eval Let_def)

text \<open>
  C2. Every entry of the archive was written for a file of the walk, under the file's
  path relative to the parent of the source directory; that path begins with the source
  directory's base name, followed by the file's path relative to the source directory.
  The base name is the last component of the source directory; the file system's root has
  none.
\<close>

theorem entry_paths:
  assumes "(arcname, file_path) \<in> set (entries (package_skill validate_skill fs cwd skill_path output_dir))"
  shows "is_file (fs_after (package_skill validate_skill fs cwd skill_path output_dir)) file_path \<and>
         relative_to file_path (parent skill_path) = Inr arcname \<and>
         (skill_path \<noteq> [] \<longrightarrow> (\<exists>rel. rel \<noteq> [] \<and> file_path = skill_path @ rel \<and> arcname = name skill_path # rel))"
proof -
  let ?r = "package_skill validate_skill fs cwd skill_path output_dir"
  from package_skill_entries [OF assms] obtain pats st where
    w: "walk_loop (fs_after ?r) skill_path pats (rglob (fs_after ?r) skill_path)
        \<lparr>written = [], added = 0, excluded = 0\<rparr> = Inr st"
    and e: "entries ?r = written st"
    by (rule package_skill_success)
  from assms e have "(arcname, file_path) \<in> set (written st)"
    by simp
  from walk_loop_written [OF w this]
  have m: "file_path \<in> set (rglob (fs_after ?r) skill_path)"
    and f: "is_file (fs_after ?r) file_path"
    and a: "relative_to file_path (parent skill_path) = Inr arcname"
    by auto
  from rglob_below [OF m] obtain rel where rel: "rel \<noteq> []" "file_path = skill_path @ rel"
    by blast
  have "skill_path \<noteq> [] \<Longrightarrow> arcname = name skill_path # rel"
  proof -
    assume ne: "skill_path \<noteq> []"
    then have sp: "skill_path = butlast skill_path @ [last skill_path]"
      by simp
    from a have "arcname = drop (length (butlast skill_path)) file_path"
      by (auto simp: relative_to_def parent_def split: if_splits)
    also have "file_path = butlast skill_path @ (last skill_path # rel)"
      using rel(2) sp by (metis append.assoc append_Cons append_Nil)
    finally show ?thesis
      using ne by (simp add: name_def)
  qed
  with f a rel show ?thesis
    by blast
qed

theorem entry_paths_witness:
  "([''my-skill'', ''notes.md''], [''home'', ''my-skill'', ''notes.md''])
     \<in> set (entries (package_skill accept skill_tree [''home''] [''home'', ''my-skill'']
                (Some [''out'']))) \<and>
   relative_to [''home'', ''my-skill'', ''notes.md''] (parent [''home'', ''my-skill''])
     = Inr [''my-skill'', ''notes.md''] \<and>
   (\<exists>rel. [''my-skill'', ''notes.md''] = name [''home'', ''my-skill''] # rel)"
proof -
  have m: "([''my-skill'', ''notes.md''], [''home'', ''my-skill'', ''notes.md''])
     \<in> set (entries (package_skill accept skill_tree [''home''] [''home'', ''my-skill'']
                (Some [''out''])))"
    by (simp add: skill_tree_def accept_def pkg_eval fs_eval excl_eval Let_def)
  from entry_paths [OF m] m show ?thesis
    by auto
qed

end
